theory Spec2Isabelle
  imports Complex_Main
begin

section \<open>Text primitives of the host language\<close>

text \<open>
  A Python \<open>str\<close> is modelled as a list of 8-bit characters read as Latin-1 code points:
  one \<open>char\<close> is one code point, so lengths, indexing and substring tests count what the
  program counts. Every literal of \<open>app.py\<close> used below (keywords, country names, aliases,
  the accent table) lies in that range; text with code points above 255 is outside the model.
\<close>

abbreviation a_aguda :: char where "a_aguda \<equiv> CHR 0xE1"
abbreviation e_aguda :: char where "e_aguda \<equiv> CHR 0xE9"
abbreviation i_aguda :: char where "i_aguda \<equiv> CHR 0xED"
abbreviation o_aguda :: char where "o_aguda \<equiv> CHR 0xF3"
abbreviation u_aguda :: char where "u_aguda \<equiv> CHR 0xFA"
abbreviation u_dieresis :: char where "u_dieresis \<equiv> CHR 0xFC"
abbreviation enie :: char where "enie \<equiv> CHR 0xF1"
abbreviation a_grave :: char where "a_grave \<equiv> CHR 0xE0"
abbreviation e_grave :: char where "e_grave \<equiv> CHR 0xE8"
abbreviation i_grave :: char where "i_grave \<equiv> CHR 0xEC"
abbreviation o_grave :: char where "o_grave \<equiv> CHR 0xF2"
abbreviation u_grave :: char where "u_grave \<equiv> CHR 0xF9"
abbreviation abre_interrogacion :: char where "abre_interrogacion \<equiv> CHR 0xBF"
abbreviation abre_exclamacion :: char where "abre_exclamacion \<equiv> CHR 0xA1"
abbreviation comilla :: char where "comilla \<equiv> CHR 0x27"

text \<open>
  \<open>str.lower()\<close> on Latin-1: the upper-case letters are \<open>A..Z\<close> (65..90), \<open>U+00C0..U+00D6\<close>
  (192..214) and \<open>U+00D8..U+00DE\<close> (216..222); each maps to the code point 32 above it, which
  is the same code with bit 5 set. Every other character is unchanged.
\<close>

definition es_mayuscula :: "char \<Rightarrow> bool" where
  "es_mayuscula c = (let n = (of_char c :: nat) in
     (65 \<le> n \<and> n \<le> 90) \<or> (192 \<le> n \<and> n \<le> 214) \<or> (216 \<le> n \<and> n \<le> 222))"

fun lower_char :: "char \<Rightarrow> char" where
  "lower_char (Char b0 b1 b2 b3 b4 b5 b6 b7) =
     (if es_mayuscula (Char b0 b1 b2 b3 b4 b5 b6 b7) then Char b0 b1 b2 b3 b4 True b6 b7
      else Char b0 b1 b2 b3 b4 b5 b6 b7)"

definition py_lower :: "string \<Rightarrow> string" where
  "py_lower s = map lower_char s"

text \<open>
  The white space of \<open>str.split()\<close> and \<open>str.strip()\<close> below code point 256: TAB, LF, VT, FF,
  CR, the separators 28..31, SPACE, NEL (133) and NBSP (160).
\<close>

definition es_espacio :: "char \<Rightarrow> bool" where
  "es_espacio c = (c \<in> set [CHR 0x09, CHR 0x0A, CHR 0x0B, CHR 0x0C, CHR 0x0D,
                             CHR 0x1C, CHR 0x1D, CHR 0x1E, CHR 0x1F, CHR 0x20,
                             CHR 0x85, CHR 0xA0])"

definition py_strip :: "string \<Rightarrow> string" where
  "py_strip s = rev (dropWhile es_espacio (rev (dropWhile es_espacio s)))"

text \<open>
  \<open>s.split()\<close> without a separator: maximal runs of non-space characters, in order; no empty
  token. \<open>split_acc\<close> carries the token being read.
\<close>

fun split_acc :: "string \<Rightarrow> string \<Rightarrow> string list" where
  "split_acc actual [] = (if actual = [] then [] else [actual])"
| "split_acc actual (c # cs) =
     (if es_espacio c then (if actual = [] then split_acc [] cs else actual # split_acc [] cs)
      else split_acc (actual @ [c]) cs)"

definition py_split :: "string \<Rightarrow> string list" where
  "py_split s = split_acc [] s"

text \<open>\<open>s.startswith(p)\<close> and the substring test \<open>sub in s\<close>.\<close>

fun py_startswith :: "string \<Rightarrow> string \<Rightarrow> bool" where
  "py_startswith [] s = True"
| "py_startswith (p # ps) [] = False"
| "py_startswith (p # ps) (c # cs) = (p = c \<and> py_startswith ps cs)"

fun py_in :: "string \<Rightarrow> string \<Rightarrow> bool" where
  "py_in sub [] = (sub = [])"
| "py_in sub (c # cs) = (py_startswith sub (c # cs) \<or> py_in sub cs)"

text \<open>
  \<open>s.replace(old, new)\<close> for a non-empty \<open>old\<close>: non-overlapping occurrences, left to right.
  \<open>s.split(sep)\<close> for a one-character separator: always at least one field.
\<close>

fun py_replace :: "string \<Rightarrow> string \<Rightarrow> string \<Rightarrow> string" where
  "py_replace old new [] = []"
| "py_replace old new (c # cs) =
     (if old \<noteq> [] \<and> py_startswith old (c # cs)
      then new @ py_replace old new (drop (length old) (c # cs))
      else c # py_replace old new cs)"

fun split_sep_acc :: "char \<Rightarrow> string \<Rightarrow> string \<Rightarrow> string list" where
  "split_sep_acc sep actual [] = [actual]"
| "split_sep_acc sep actual (c # cs) =
     (if c = sep then actual # split_sep_acc sep [] cs else split_sep_acc sep (actual @ [c]) cs)"

definition py_split_sep :: "char \<Rightarrow> string \<Rightarrow> string list" where
  "py_split_sep sep s = split_sep_acc sep [] s"

text \<open>Python values as far as the program tests for them, and the exceptions it can meet.\<close>

datatype pyval = PyStr string | PyNone | PyInt int

datatype py_error =
    AttributeError
  | TypeError
  | ValueError
  | KeyError
  | IndexError
  | UnknownTimeZoneError
  | JSONDecodeError
  | RequestException
  | WeatherAPIError

text \<open>Only the class of an exception is modelled, not the text of its message.\<close>

section \<open>Configuration tables\<close>

definition SALUDOS :: "string list" where
  "SALUDOS = [''hola'', ''buenos d'' @ [i_aguda] @ ''as'', ''buenas tardes'',
              ''buenas noches'', ''hey'', ''saludos'']"

definition PALABRAS_CLIMA :: "string list" where
  "PALABRAS_CLIMA = [''clima'', ''tiempo'', ''temperatura'', ''pron'' @ [o_aguda] @ ''stico'',
                     ''hace calor'', ''hace fr'' @ [i_aguda] @ ''o'']"

definition PALABRAS_HORA :: "string list" where
  "PALABRAS_HORA = [''hora'', ''qu'' @ [e_aguda] @ '' horas son'', ''dime la hora'']"

record pais_info =
  capital :: string
  codigo :: string

text \<open>A dict keeps insertion order; the association list keeps the order of the literal.\<close>

definition PAISES_INFO :: "(string \<times> pais_info) list" where
  "PAISES_INFO = [
    (''chile'', \<lparr>capital = ''Santiago'', codigo = ''CL''\<rparr>),
    (''argentina'', \<lparr>capital = ''Buenos Aires'', codigo = ''AR''\<rparr>),
    (''espa'' @ [enie] @ ''a'', \<lparr>capital = ''Madrid'', codigo = ''ES''\<rparr>),
    (''mexico'', \<lparr>capital = ''Ciudad de M'' @ [e_aguda] @ ''xico'', codigo = ''MX''\<rparr>),
    (''colombia'', \<lparr>capital = ''Bogot'' @ [a_aguda], codigo = ''CO''\<rparr>),
    (''peru'', \<lparr>capital = ''Lima'', codigo = ''PE''\<rparr>),
    (''venezuela'', \<lparr>capital = ''Caracas'', codigo = ''VE''\<rparr>),
    (''ecuador'', \<lparr>capital = ''Quito'', codigo = ''EC''\<rparr>),
    (''bolivia'', \<lparr>capital = ''La Paz'', codigo = ''BO''\<rparr>),
    (''paraguay'', \<lparr>capital = ''Asunci'' @ [o_aguda] @ ''n'', codigo = ''PY''\<rparr>),
    (''uruguay'', \<lparr>capital = ''Montevideo'', codigo = ''UY''\<rparr>),
    (''brasil'', \<lparr>capital = ''Brasilia'', codigo = ''BR''\<rparr>),
    (''estados unidos'', \<lparr>capital = ''Washington'', codigo = ''US''\<rparr>),
    (''canada'', \<lparr>capital = ''Ottawa'', codigo = ''CA''\<rparr>),
    (''francia'', \<lparr>capital = ''Par'' @ [i_aguda] @ ''s'', codigo = ''FR''\<rparr>),
    (''italia'', \<lparr>capital = ''Roma'', codigo = ''IT''\<rparr>),
    (''alemania'', \<lparr>capital = ''Berl'' @ [i_aguda] @ ''n'', codigo = ''DE''\<rparr>),
    (''reino unido'', \<lparr>capital = ''Londres'', codigo = ''GB''\<rparr>),
    (''japon'', \<lparr>capital = ''Tokio'', codigo = ''JP''\<rparr>),
    (''china'', \<lparr>capital = ''Pek'' @ [i_aguda] @ ''n'', codigo = ''CN''\<rparr>),
    (''rusia'', \<lparr>capital = ''Mosc'' @ [u_aguda], codigo = ''RU''\<rparr>)]"

definition nombres_paises :: "string list" where
  "nombres_paises = map fst PAISES_INFO"

definition ZONAS_HORARIAS_PAIS :: "(string \<times> string list) list" where
  "ZONAS_HORARIAS_PAIS = [
    (''RU'', [''Europe/Moscow'', ''Europe/Kaliningrad'', ''Europe/Samara'',
              ''Asia/Yekaterinburg'', ''Asia/Omsk'', ''Asia/Krasnoyarsk'', ''Asia/Irkutsk'',
              ''Asia/Yakutsk'', ''Asia/Vladivostok'', ''Asia/Magadan'', ''Asia/Kamchatka'']),
    (''US'', [''America/New_York'', ''America/Chicago'', ''America/Denver'',
              ''America/Los_Angeles'', ''America/Anchorage'', ''Pacific/Honolulu'']),
    (''ES'', [''Europe/Madrid'']),
    (''FR'', [''Europe/Paris'']),
    (''DE'', [''Europe/Berlin'']),
    (''IT'', [''Europe/Rome'']),
    (''GB'', [''Europe/London'']),
    (''PT'', [''Europe/Lisbon'']),
    (''MX'', [''America/Mexico_City'', ''America/Tijuana'', ''America/Cancun'']),
    (''BR'', [''America/Sao_Paulo'', ''America/Manaus'', ''America/Belem'']),
    (''AR'', [''America/Argentina/Buenos_Aires'']),
    (''CL'', [''America/Santiago'']),
    (''CO'', [''America/Bogota'']),
    (''PE'', [''America/Lima'']),
    (''EC'', [''America/Guayaquil'']),
    (''VE'', [''America/Caracas'']),
    (''BO'', [''America/La_Paz'']),
    (''PY'', [''America/Asuncion'']),
    (''UY'', [''America/Montevideo'']),
    (''CR'', [''America/Costa_Rica'']),
    (''DO'', [''America/Santo_Domingo'']),
    (''PA'', [''America/Panama'']),
    (''HN'', [''America/Tegucigalpa'']),
    (''SV'', [''America/El_Salvador'']),
    (''NI'', [''America/Managua'']),
    (''GT'', [''America/Guatemala''])]"

text \<open>The alias table local to \<open>_normalizar_pais\<close> (its keys are pairwise distinct).\<close>

definition variaciones_paises :: "(string \<times> string) list" where
  "variaciones_paises = [
    (''usa'', ''estados unidos''),
    (''estados unidos de america'', ''estados unidos''),
    (''eeuu'', ''estados unidos''),
    (''united states'', ''estados unidos''),
    (''us'', ''estados unidos''),
    (''m'' @ [e_aguda] @ ''xico'', ''mexico''),
    (''rep'' @ [u_aguda] @ ''blica dominicana'', ''republica dominicana''),
    (''rd'', ''republica dominicana''),
    (''vzla'', ''venezuela''),
    (''arg'', ''argentina''),
    (''chi'', ''chile''),
    (''col'', ''colombia''),
    (''per'', ''peru''),
    (''uru'', ''uruguay''),
    (''par'', ''paraguay''),
    (''ecu'', ''ecuador''),
    (''bol'', ''bolivia''),
    (''espa'' @ [enie] @ ''a'', ''espana''),
    (''uk'', ''reino unido''),
    (''gran breta'' @ [enie] @ ''a'', ''reino unido''),
    (''england'', ''reino unido''),
    (''francia'', ''francia''),
    (''fr'', ''francia''),
    (''alemania'', ''alemania''),
    (''de'', ''alemania''),
    (''italia'', ''italia''),
    (''it'', ''italia''),
    (''portugal'', ''portugal''),
    (''pt'', ''portugal''),
    (''jap'' @ [o_aguda] @ ''n'', ''japon''),
    (''jp'', ''japon''),
    (''china'', ''china''),
    (''cn'', ''china''),
    (''corea del sur'', ''corea del sur''),
    (''kr'', ''corea del sur''),
    (''australia'', ''australia''),
    (''au'', ''australia''),
    (''nueva zelanda'', ''nueva zelanda''),
    (''nz'', ''nueva zelanda'')]"

section \<open>Text normalisation\<close>

text \<open>
  \<open>_eliminar_tildes\<close>: lower-cases, then replaces each character that is a key of
  \<open>reemplazos\<close> and keeps every other character.
\<close>

definition reemplazos :: "(char \<times> char) list" where
  "reemplazos = [
    (a_aguda, CHR ''a''), (e_aguda, CHR ''e''), (i_aguda, CHR ''i''), (o_aguda, CHR ''o''),
    (u_aguda, CHR ''u''), (u_dieresis, CHR ''u''), (enie, CHR ''n''), (a_grave, CHR ''a''),
    (e_grave, CHR ''e''), (i_grave, CHR ''i''), (o_grave, CHR ''o''), (u_grave, CHR ''u'')]"

definition reemplazar :: "char \<Rightarrow> char" where
  "reemplazar c = (case map_of reemplazos c of Some r \<Rightarrow> r | None \<Rightarrow> c)"

definition eliminar_tildes :: "string \<Rightarrow> string" where
  "eliminar_tildes texto = map reemplazar (py_lower texto)"






section \<open>Country resolution\<close>

text \<open>
  \<open>_normalizar_pais\<close>: lower-case and strip; translate through the alias table
  (\<open>dict.get(texto, texto)\<close>); return the result when it is a key of \<open>PAISES_INFO\<close>;
  otherwise the first key, in table order, that contains it or is contained in it.
\<close>

definition normalizar_pais :: "string \<Rightarrow> string option" where
  "normalizar_pais texto0 =
     (let texto = py_strip (py_lower texto0);
          pais_normalizado = (case map_of variaciones_paises texto of
                                Some p \<Rightarrow> p | None \<Rightarrow> texto)
      in if pais_normalizado \<in> set nombres_paises then Some pais_normalizado
         else find (\<lambda>pais. py_in pais_normalizado pais \<or> py_in pais pais_normalizado)
                   nombres_paises)"

section \<open>Intent and location extraction\<close>

record entidades =
  ubicacion :: "string option"
  es_saludo :: bool
  es_clima :: bool
  es_hora :: bool
  es_pais :: bool

definition entidades_vacias :: entidades where
  "entidades_vacias = \<lparr>ubicacion = None, es_saludo = False, es_clima = False,
                        es_hora = False, es_pais = False\<rparr>"

definition patrones_ubicacion :: "string list" where
  "patrones_ubicacion = [''en'', ''de'', ''a'']"

text \<open>Python truth of an optional string: \<open>None\<close> and \<open>''\<close> are false.\<close>

fun verdadero :: "string option \<Rightarrow> bool" where
  "verdadero None = False"
| "verdadero (Some s) = (s \<noteq> [])"

text \<open>
  First loop of \<open>extraer_entidades\<close>: at each marker that has a following token, resolve
  that token; stop at the first truthy result.
\<close>

fun buscar_tras_patron :: "string list \<Rightarrow> string option" where
  "buscar_tras_patron [] = None"
| "buscar_tras_patron [palabra] = None"
| "buscar_tras_patron (palabra # siguiente # resto) =
     (if palabra \<in> set patrones_ubicacion \<and> verdadero (normalizar_pais siguiente)
      then normalizar_pais siguiente
      else buscar_tras_patron (siguiente # resto))"

text \<open>Second loop: every token on its own; stop at the first truthy result.\<close>

fun buscar_en_texto :: "string list \<Rightarrow> string option" where
  "buscar_en_texto [] = None"
| "buscar_en_texto (palabra # resto) =
     (if verdadero (normalizar_pais palabra) then normalizar_pais palabra
      else buscar_en_texto resto)"

text \<open>
  \<open>extraer_entidades\<close>. The value of \<open>word_tokenize(texto_limpio)\<close> is never read, so it
  is not part of the model.
\<close>

definition extraer_entidades :: "pyval \<Rightarrow> entidades" where
  "extraer_entidades v =
     (case v of
        PyStr texto \<Rightarrow>
          if texto = [] then entidades_vacias
          else
            (let texto_limpio = eliminar_tildes (py_lower texto);
                 texto_tokenizado = py_split texto_limpio;
                 primera = buscar_tras_patron texto_tokenizado;
                 hallada = (if \<not> verdadero primera then buscar_en_texto texto_tokenizado
                            else primera)
             in \<lparr>ubicacion = hallada,
                 es_saludo = list_ex (\<lambda>saludo. py_in saludo texto_limpio) SALUDOS,
                 es_clima = list_ex (\<lambda>palabra. py_in palabra texto_limpio) PALABRAS_CLIMA,
                 es_hora = list_ex (\<lambda>palabra. py_in palabra texto_limpio) PALABRAS_HORA,
                 es_pais = verdadero hallada\<rparr>)
      | PyNone \<Rightarrow> entidades_vacias
      | PyInt n \<Rightarrow> (entidades_vacias))"

section \<open>Dialogue routing\<close>

definition MENSAJE_SALUDO :: string where
  "MENSAJE_SALUDO =
     [abre_exclamacion] @ ''Hola! Soy tu asistente de clima y hora. '' @
     ''Puedes preguntarme por el clima o la hora en cualquier ciudad o pa'' @ [i_aguda] @
     ''s del mundo. '' @
     [abre_interrogacion] @ ''En qu'' @ [e_aguda] @ '' puedo ayudarte hoy?''"

definition PREGUNTA_CLIMA :: string where
  "PREGUNTA_CLIMA =
     [abre_interrogacion] @ ''De qu'' @ [e_aguda] @ '' ciudad o pa'' @ [i_aguda] @
     ''s te gustar'' @ [i_aguda] @ ''a saber el clima? '' @
     ''Por ejemplo: '' @ [comilla, abre_interrogacion] @ ''Qu'' @ [e_aguda] @
     '' clima hace en Par'' @ [i_aguda] @ ''s?'' @ [comilla]"

definition PREGUNTA_HORA :: string where
  "PREGUNTA_HORA =
     [abre_interrogacion] @ ''De qu'' @ [e_aguda] @ '' ciudad o pa'' @ [i_aguda] @
     ''s te gustar'' @ [i_aguda] @ ''a saber la hora? '' @
     ''Por ejemplo: '' @ [comilla, abre_interrogacion] @ ''Qu'' @ [e_aguda] @
     '' hora es en Tokio?'' @ [comilla]"

definition PREGUNTA_GENERAL :: string where
  "PREGUNTA_GENERAL =
     ''No estoy seguro de qu'' @ [e_aguda] @ '' necesitas. '' @
     [abre_interrogacion] @ ''Te gustar'' @ [i_aguda] @
     ''a saber el clima o la hora en alguna ciudad o pa'' @ [i_aguda] @ ''s?''"

text \<open>
  A reply is the text of \<open>procesar_mensaje\<close> or the object that \<open>obtener_hora_ciudad\<close>
  returns. The two lookups reach the network; they are parameters here, and both catch
  every exception themselves.
\<close>

datatype 'd respuesta = Texto string | Objeto 'd

definition procesar_mensaje ::
  "(string \<Rightarrow> string) \<Rightarrow> (string \<Rightarrow> 'd) \<Rightarrow> pyval \<Rightarrow> 'd respuesta" where
  "procesar_mensaje obtener_clima_actual obtener_hora_ciudad mensaje =
     (let ents = extraer_entidades mensaje;
          sin_ubicacion =
            (if es_clima ents then Texto PREGUNTA_CLIMA
             else if es_hora ents then Texto PREGUNTA_HORA
             else Texto PREGUNTA_GENERAL)
      in if es_saludo ents then Texto MENSAJE_SALUDO
         else (case ubicacion ents of
                 None \<Rightarrow> sin_ubicacion
               | Some lugar \<Rightarrow>
                   if lugar = [] then sin_ubicacion
                   else if es_clima ents then Texto (obtener_clima_actual lugar)
                   else if es_hora ents then Objeto (obtener_hora_ciudad lugar)
                   else Texto ([abre_interrogacion] @ ''Te gustar'' @ [i_aguda] @
                               ''a saber el clima o la hora en '' @ lugar @ ''?'')))"

section \<open>Time zone and local time\<close>

record hora_local =
  hour :: nat
  minute :: nat
  dia_ingles :: string

record zona_info =
  timezone :: string
  time :: string
  time_12 :: string
  moment :: string
  weekday :: string

text \<open>
  The three ways \<open>obtener_zona_horaria\<close> returns \<open>{'error': ...}\<close>: no zone determined,
  zone not recognised by the zone database, and any other exception (outer handler).
\<close>

datatype zona_error = Sin_zona | Zona_no_reconocida | Error_interno py_error

definition dias_es :: "(string \<times> string) list" where
  "dias_es = [
    (''Monday'', ''lunes''), (''Tuesday'', ''martes''),
    (''Wednesday'', ''mi'' @ [e_aguda] @ ''rcoles''), (''Thursday'', ''jueves''),
    (''Friday'', ''viernes''), (''Saturday'', ''s'' @ [a_aguda] @ ''bado''),
    (''Sunday'', ''domingo'')]"

definition digito :: "nat \<Rightarrow> char" where
  "digito n = ''0123456789'' ! (n mod 10)"

definition dos_digitos :: "nat \<Rightarrow> string" where
  "dos_digitos n = [digito (n div 10), digito n]"

text \<open>\<open>strftime("%H:%M")\<close>, and \<open>strftime("%I:%M %p")\<close> lower-cased with the two replacements.\<close>

definition formato_24 :: "hora_local \<Rightarrow> string" where
  "formato_24 t = dos_digitos (hour t) @ '':'' @ dos_digitos (minute t)"

definition formato_12 :: "hora_local \<Rightarrow> string" where
  "formato_12 t =
     py_replace ''am'' ''a.m.'' (py_replace ''pm'' ''p.m.'' (py_lower
       (dos_digitos (if hour t mod 12 = 0 then 12 else hour t mod 12) @ '':'' @
        dos_digitos (minute t) @ '' '' @ (if hour t < 12 then ''AM'' else ''PM''))))"

text \<open>The label of the part of the day, from \<open>local_time.hour\<close> (lines 263-269).\<close>

definition momento_del_dia :: "nat \<Rightarrow> string" where
  "momento_del_dia hora_num =
     (if 5 \<le> hora_num \<and> hora_num < 12 then ''de la ma'' @ [enie] @ ''ana''
      else if 12 \<le> hora_num \<and> hora_num < 20 then ''de la tarde''
      else ''de la noche'')"

text \<open>
  The choice of the zone (lines 233-245). \<open>tf\<close> is \<open>TimezoneFinder.timezone_at\<close>: it may
  raise, return \<open>None\<close> or return a zone name. The argument \<open>codigo_pais\<close> is read nowhere:
  the name is reassigned from the registry when the hint is a registry key.
\<close>

definition elegir_zona ::
  "(real \<Rightarrow> real \<Rightarrow> py_error + string option) \<Rightarrow> real \<Rightarrow> real \<Rightarrow> string option
     \<Rightarrow> string option \<Rightarrow> py_error + string option" where
  "elegir_zona tf lat lon codigo_pais pais_usuario =
     (case pais_usuario of
        None \<Rightarrow> tf lat lon
      | Some pais \<Rightarrow>
          if pais = [] then tf lat lon
          else (case map_of PAISES_INFO (py_lower pais) of
                  None \<Rightarrow> tf lat lon
                | Some info \<Rightarrow>
                    (case map_of ZONAS_HORARIAS_PAIS (codigo info) of
                       None \<Rightarrow> tf lat lon
                     | Some [] \<Rightarrow> Inl IndexError
                     | Some (zona # otras) \<Rightarrow> Inr (Some zona))))"

text \<open>
  \<open>obtener_zona_horaria\<close>. \<open>reloj\<close> stands for \<open>pytz.timezone\<close> followed by the reading of
  the clock in that zone: it fails with \<open>UnknownTimeZoneError\<close> for a name the zone
  database does not know.
\<close>

definition obtener_zona_horaria ::
  "(real \<Rightarrow> real \<Rightarrow> py_error + string option) \<Rightarrow> (string \<Rightarrow> py_error + hora_local)
     \<Rightarrow> real \<Rightarrow> real \<Rightarrow> string option \<Rightarrow> string option \<Rightarrow> zona_error + zona_info" where
  "obtener_zona_horaria tf reloj lat lon codigo_pais pais_usuario =
     (case elegir_zona tf lat lon codigo_pais pais_usuario of
        Inl e \<Rightarrow> Inl (Error_interno e)
      | Inr None \<Rightarrow> Inl Sin_zona
      | Inr (Some timezone_str) \<Rightarrow>
          if timezone_str = [] then Inl Sin_zona
          else (case reloj timezone_str of
                  Inl UnknownTimeZoneError \<Rightarrow> Inl Zona_no_reconocida
                | Inl e \<Rightarrow> Inl (Error_interno e)
                | Inr local_time \<Rightarrow>
                    (case map_of dias_es (dia_ingles local_time) of
                       None \<Rightarrow> Inl (Error_interno KeyError)
                     | Some weekday_es \<Rightarrow>
                         Inr \<lparr>timezone = timezone_str,
                              time = formato_24 local_time,
                              time_12 = formato_12 local_time,
                              moment = momento_del_dia (hour local_time),
                              weekday = weekday_es\<rparr>)))"

section \<open>The HTTP client and geocoding\<close>

definition TIMEOUT :: nat where "TIMEOUT = 15"
definition MAX_RETRIES :: nat where "MAX_RETRIES = 3"

datatype json = JNull | JBool bool | JNum real | JStr string | JArr "json list"
  | JObj "(string \<times> json) list"

text \<open>
  What one \<open>requests.get\<close> followed by \<open>response.json()\<close> can give: the request itself
  raises (connection failure, timeout), the body is not JSON, or a status with a parsed body.
\<close>

datatype http_resultado = Fallo_transporte | Cuerpo_invalido nat | Respuesta nat json

text \<open>What the client does to the outside world, in order.\<close>

datatype evento = Peticion nat nat | Dormir nat

text \<open>
  \<open>data.get('message', ...)\<close> on a non-200 reply raises when the body is not an object;
  either way the attempt ends in an exception.
\<close>

fun intento :: "http_resultado \<Rightarrow> py_error + json" where
  "intento Fallo_transporte = Inl RequestException"
| "intento (Cuerpo_invalido estado) = Inl JSONDecodeError"
| "intento (Respuesta estado data) =
     (if estado \<noteq> 200 then (case data of JObj campos \<Rightarrow> Inl WeatherAPIError
                                        | _ \<Rightarrow> Inl AttributeError)
      else Inr data)"

text \<open>
  The loop \<open>for attempt in range(MAX_RETRIES)\<close>. \<open>red attempt\<close> is what the network gives
  to the request of that attempt; \<open>restantes\<close> counts the iterations left. An exhausted
  \<open>range\<close> would fall out of the loop and return \<open>None\<close>.
\<close>

fun bucle_intentos ::
  "(nat \<Rightarrow> http_resultado) \<Rightarrow> nat \<Rightarrow> nat \<Rightarrow> (py_error + json) \<times> evento list" where
  "bucle_intentos red attempt 0 = (Inr JNull, [])"
| "bucle_intentos red attempt (Suc restantes) =
     (case intento (red attempt) of
        Inr data \<Rightarrow> (Inr data, [Peticion attempt TIMEOUT])
      | Inl e \<Rightarrow>
          if attempt = MAX_RETRIES - 1 then (Inl WeatherAPIError, [Peticion attempt TIMEOUT])
          else (let (r, evs) = bucle_intentos red (Suc attempt) restantes
                in (r, [Peticion attempt TIMEOUT, Dormir ((attempt + 1) * 2)] @ evs)))"

definition make_api_request ::
  "(nat \<Rightarrow> http_resultado) \<Rightarrow> (py_error + json) \<times> evento list" where
  "make_api_request red = bucle_intentos red 0 MAX_RETRIES"

text \<open>
  \<open>obtener_coordenadas\<close>: \<open>dict.get\<close> gives \<open>None\<close> for a missing key; every exception,
  from the client or from reading the reply, is caught and gives four \<open>None\<close>.
\<close>

definition obtener_campo :: "(string \<times> json) list \<Rightarrow> string \<Rightarrow> json" where
  "obtener_campo campos k = (case map_of campos k of Some v \<Rightarrow> v | None \<Rightarrow> JNull)"

definition NADA :: "json \<times> json \<times> json \<times> json" where
  "NADA = (JNull, JNull, JNull, JNull)"

fun leer_ubicacion :: "json \<Rightarrow> json \<times> json \<times> json \<times> json" where
  "leer_ubicacion (JArr (JObj location # resto)) =
     (obtener_campo location ''name'', obtener_campo location ''lat'',
      obtener_campo location ''lon'', obtener_campo location ''country'')"
| "leer_ubicacion data = NADA"

definition obtener_coordenadas ::
  "(nat \<Rightarrow> http_resultado) \<Rightarrow> (json \<times> json \<times> json \<times> json) \<times> evento list" where
  "obtener_coordenadas red =
     (case make_api_request red of
        (Inl e, evs) \<Rightarrow> (NADA, evs)
      | (Inr data, evs) \<Rightarrow> (leer_ubicacion data, evs))"

section \<open>Concrete inputs\<close>

text \<open>The message of the specification's example, and a question that names no place.\<close>

definition MENSAJE_HOLA_ESPANA :: string where
  "MENSAJE_HOLA_ESPANA = ''Hola, '' @ [abre_interrogacion] @ ''qu'' @ [e_aguda] @
     '' clima hace en Espa'' @ [enie] @ ''a?''"

definition MENSAJE_SIN_LUGAR :: string where
  "MENSAJE_SIN_LUGAR = ''que clima hace en mi ciudad''"

text \<open>
  An environment for concrete runs: a zone finder that answers Vladivostok for every
  point, and a clock that reads Monday 12:05 in every zone.
\<close>

definition tf_vladivostok :: "real \<Rightarrow> real \<Rightarrow> py_error + string option" where
  "tf_vladivostok lat lon = Inr (Some ''Asia/Vladivostok'')"

definition reloj_mediodia :: "string \<Rightarrow> py_error + hora_local" where
  "reloj_mediodia zona = Inr \<lparr>hour = 12, minute = 5, dia_ingles = ''Monday''\<rparr>"

text \<open>
  Two networks for concrete runs: one where every request fails in transport, one that
  answers every request with status 200 and an empty list. \<open>TRAZA_COMPLETA\<close> is the trace
  of a call that uses all its attempts.
\<close>

definition red_caida :: "nat \<Rightarrow> http_resultado" where
  "red_caida attempt = Fallo_transporte"

definition red_vacia :: "nat \<Rightarrow> http_resultado" where
  "red_vacia attempt = Respuesta 200 (JArr [])"

definition TRAZA_COMPLETA :: "evento list" where
  "TRAZA_COMPLETA = [Peticion 0 15, Dormir 2, Peticion 1 15, Dormir 4, Peticion 2 15]"

section \<open>The chat route, coordinate mode\<close>

text \<open>
  A Python \<open>float\<close> as far as the range test needs it: a finite value, an infinity, or
  not-a-number, for which every comparison is false. The built-in \<open>float(s)\<close> is a parameter
  of the model: \<open>None\<close> stands for its \<open>ValueError\<close>.
\<close>

datatype pyfloat = Finito real | Infinito | Menos_infinito | NaN

fun dentro :: "real \<Rightarrow> pyfloat \<Rightarrow> bool" where
  "dentro limite (Finito x) = (- limite \<le> x \<and> x \<le> limite)"
| "dentro limite Infinito = False"
| "dentro limite Menos_infinito = False"
| "dentro limite NaN = False"

definition FORMATO_INVALIDO :: string where
  "FORMATO_INVALIDO = ''Formato de coordenadas inv'' @ [a_aguda] @ ''lido. Por favor, int'' @
     [e_aguda] @ ''ntalo de nuevo.''"

definition ERROR_UBICACION :: string where
  "ERROR_UBICACION = ''Error al procesar tu ubicaci'' @ [o_aguda] @ ''n. Por favor, int'' @
     [e_aguda] @ ''ntalo de nuevo.''"

text \<open>
  The calls that leave the route handler: the weather lookup by coordinates (which is the
  only way to the network in coordinate mode) and the processing of a plain message.
\<close>

datatype llamada = Clima_por_coordenadas real real | Procesar_mensaje string

datatype ('w, 'd) cuerpo =
    Cuerpo_texto string
  | Cuerpo_clima 'w
  | Cuerpo_error_clima
  | Cuerpo_respuesta "'d respuesta"

text \<open>
  \<open>if accuracy: logger.info(... round(accuracy) ...)\<close>: a truthy value that is not a number
  makes \<open>round\<close> raise \<open>TypeError\<close>.
\<close>

fun registro_falla :: "json \<Rightarrow> bool" where
  "registro_falla (JStr s) = (s \<noteq> [])"
| "registro_falla (JArr xs) = (xs \<noteq> [])"
| "registro_falla (JObj campos) = (campos \<noteq> [])"
| "registro_falla v = False"

text \<open>
  The route \<open>/chat\<close> from the point where the field \<open>mensaje\<close> has been read (lines 803-864);
  \<open>accuracy\<close> is \<open>data.get('accuracy')\<close>. The result is the status, the body and the
  calls made, in order.
\<close>

definition chat ::
  "(string \<Rightarrow> pyfloat option) \<Rightarrow> (real \<Rightarrow> real \<Rightarrow> py_error + 'w) \<Rightarrow> (string \<Rightarrow> 'd respuesta)
     \<Rightarrow> json \<Rightarrow> string \<Rightarrow> nat \<times> ('w, 'd) cuerpo \<times> llamada list" where
  "chat py_float obtener_clima_por_coordenadas procesar accuracy mensaje0 =
     (let mensaje = py_strip mensaje0;
          rechazo = (400, Cuerpo_texto FORMATO_INVALIDO, [])
      in if py_startswith ''@coordenadas:'' mensaje then
           (case py_split_sep CHR '','' (py_replace ''@coordenadas:'' [] mensaje) of
              [c0, c1] \<Rightarrow>
                (case py_float c0 of
                   None \<Rightarrow> rechazo
                 | Some lat \<Rightarrow>
                     (case py_float c1 of
                        None \<Rightarrow> rechazo
                      | Some lon \<Rightarrow>
                          if \<not> dentro 90 lat \<or> \<not> dentro 180 lon then rechazo
                          else if registro_falla accuracy
                          then (500, Cuerpo_texto ERROR_UBICACION, [])
                          else (case (lat, lon) of
                                  (Finito la, Finito lo) \<Rightarrow>
                                    (case obtener_clima_por_coordenadas la lo of
                                       Inr respuesta \<Rightarrow>
                                         (200, Cuerpo_clima respuesta,
                                          [Clima_por_coordenadas la lo])
                                     | Inl ValueError \<Rightarrow>
                                         (400, Cuerpo_texto FORMATO_INVALIDO,
                                          [Clima_por_coordenadas la lo])
                                     | Inl WeatherAPIError \<Rightarrow>
                                         (500, Cuerpo_error_clima,
                                          [Clima_por_coordenadas la lo])
                                     | Inl e \<Rightarrow>
                                         (500, Cuerpo_texto ERROR_UBICACION,
                                          [Clima_por_coordenadas la lo]))
                                | _ \<Rightarrow> rechazo)))
            | _ \<Rightarrow> rechazo)
         else (200, Cuerpo_respuesta (procesar mensaje), [Procesar_mensaje mensaje]))"

section \<open>Wind speed of the weather result\<close>

text \<open>
  Floating point, as far as the conversion needs it. \<open>binary64\<close> rounds a real to the
  nearest double, ties to even, with 53 significant bits (the spacing does not shrink
  below that of the subnormal numbers; overflow to infinity is not modelled).
  \<open>redondeo_par\<close> rounds to the nearest integer, ties to even.
\<close>

definition redondeo_par :: "real \<Rightarrow> int" where
  "redondeo_par x =
     (let f = \<lfloor>x\<rfloor>; d = x - of_int f
      in if d < 1 / 2 then f else if 1 / 2 < d then f + 1 else if even f then f else f + 1)"

fun longitud_bits :: "nat \<Rightarrow> nat" where
  "longitud_bits n = (if n = 0 then 0 else Suc (longitud_bits (n div 2)))"

text \<open>The exponent \<open>e\<close> with \<open>2 ^ e \<le> \<bar>x\<bar> < 2 ^ (e + 1)\<close>, for \<open>x \<noteq> 0\<close>.\<close>

definition exponente :: "real \<Rightarrow> int" where
  "exponente x =
     (if 1 \<le> \<bar>x\<bar> then int (longitud_bits (nat \<lfloor>\<bar>x\<bar>\<rfloor>)) - 1
      else - int (longitud_bits (nat (\<lceil>1 / \<bar>x\<bar>\<rceil> - 1))))"

definition ulp :: "real \<Rightarrow> real" where
  "ulp x = (let e = max (exponente x) (- 1022) - 52
            in if 0 \<le> e then 2 ^ nat e else 1 / 2 ^ nat (- e))"

definition binary64 :: "real \<Rightarrow> real" where
  "binary64 x = (if x = 0 then 0 else of_int (redondeo_par (x / ulp x)) * ulp x)"



text \<open>Concrete inputs for the route and for the wind conversion.\<close>

definition float_ejemplo :: "string \<Rightarrow> pyfloat option" where
  "float_ejemplo = map_of [(''91'', Finito 91), (''0'', Finito 0), (''-181'', Finito (- 181))]"

definition clima_caido :: "real \<Rightarrow> real \<Rightarrow> py_error + unit" where
  "clima_caido lat lon = Inl WeatherAPIError"

definition procesar_eco :: "string \<Rightarrow> string respuesta" where
  "procesar_eco mensaje = Texto mensaje"




section \<open>Properties of the text primitives\<close>

lemma py_startswith_set: "py_startswith p s \<Longrightarrow> set p \<subseteq> set s"
  by (induction p s rule: py_startswith.induct) auto

lemma py_in_set: "py_in sub s \<Longrightarrow> set sub \<subseteq> set s"
proof (induction s)
  case Nil
  then show ?case by simp
next
  case (Cons c cs)
  then show ?case using py_startswith_set [of sub "c # cs"] by auto
qed

lemma reemplazar_sin_tilde: "reemplazar c \<notin> set (map fst reemplazos)"
  by (simp add: reemplazar_def reemplazos_def)

lemma eliminar_tildes_sin_tilde: "set (eliminar_tildes t) \<inter> set (map fst reemplazos) = {}"
  using reemplazar_sin_tilde by (auto simp: eliminar_tildes_def)

lemma palabra_con_tilde_no_aparece:
  assumes "c \<in> set k" "c \<in> set (map fst reemplazos)"
  shows "\<not> py_in k (eliminar_tildes t)"
proof
  assume "py_in k (eliminar_tildes t)"
  then have "set k \<subseteq> set (eliminar_tildes t)" by (rule py_in_set)
  with assms show False using eliminar_tildes_sin_tilde [of t] by auto
qed

lemma buenos_dias_nunca: "\<not> py_in (''buenos d'' @ [i_aguda] @ ''as'') (eliminar_tildes t)"
  by (rule palabra_con_tilde_no_aparece [of i_aguda]) (simp_all add: reemplazos_def)

lemma pronostico_nunca: "\<not> py_in (''pron'' @ [o_aguda] @ ''stico'') (eliminar_tildes t)"
  by (rule palabra_con_tilde_no_aparece [of o_aguda]) (simp_all add: reemplazos_def)

lemma hace_frio_nunca: "\<not> py_in (''hace fr'' @ [i_aguda] @ ''o'') (eliminar_tildes t)"
  by (rule palabra_con_tilde_no_aparece [of i_aguda]) (simp_all add: reemplazos_def)

lemma que_horas_son_nunca: "\<not> py_in (''qu'' @ [e_aguda] @ '' horas son'') (eliminar_tildes t)"
  by (rule palabra_con_tilde_no_aparece [of e_aguda]) (simp_all add: reemplazos_def)

text \<open>
  Claim C9. The four keywords that carry an accent (\<open>buenos dias\<close>, \<open>pronostico\<close>,
  \<open>hace frio\<close>, \<open>que horas son\<close>, each with its accented vowel) are members of the
  keyword tables, yet they are never a substring of the accent-stripped text of any message:
  each intent flag is the same as if the keyword were not in its table. In particular the
  message made of the first keyword alone does not set \<open>es_saludo\<close>.
\<close>

theorem palabras_con_tilde_nunca_activan:
  fixes texto :: string
  defines "limpio \<equiv> eliminar_tildes (py_lower texto)"
  shows "(''buenos d'' @ [i_aguda] @ ''as'') \<in> set SALUDOS
       \<and> (''pron'' @ [o_aguda] @ ''stico'') \<in> set PALABRAS_CLIMA
       \<and> (''hace fr'' @ [i_aguda] @ ''o'') \<in> set PALABRAS_CLIMA
       \<and> (''qu'' @ [e_aguda] @ '' horas son'') \<in> set PALABRAS_HORA
       \<and> \<not> py_in (''buenos d'' @ [i_aguda] @ ''as'') limpio
       \<and> \<not> py_in (''pron'' @ [o_aguda] @ ''stico'') limpio
       \<and> \<not> py_in (''hace fr'' @ [i_aguda] @ ''o'') limpio
       \<and> \<not> py_in (''qu'' @ [e_aguda] @ '' horas son'') limpio
       \<and> es_saludo (extraer_entidades (PyStr texto)) =
           (texto \<noteq> [] \<and> list_ex (\<lambda>k. py_in k limpio)
              [''hola'', ''buenas tardes'', ''buenas noches'', ''hey'', ''saludos''])
       \<and> es_clima (extraer_entidades (PyStr texto)) =
           (texto \<noteq> [] \<and> list_ex (\<lambda>k. py_in k limpio)
              [''clima'', ''tiempo'', ''temperatura'', ''hace calor''])
       \<and> es_hora (extraer_entidades (PyStr texto)) =
           (texto \<noteq> [] \<and> list_ex (\<lambda>k. py_in k limpio) [''hora'', ''dime la hora''])
       \<and> \<not> es_saludo (extraer_entidades (PyStr (''buenos d'' @ [i_aguda] @ ''as'')))"
proof -
  have a: "\<not> py_in (''buenos d'' @ [i_aguda] @ ''as'') limpio"
    unfolding limpio_def by (rule buenos_dias_nunca)
  have b: "\<not> py_in (''pron'' @ [o_aguda] @ ''stico'') limpio"
    unfolding limpio_def by (rule pronostico_nunca)
  have c: "\<not> py_in (''hace fr'' @ [i_aguda] @ ''o'') limpio"
    unfolding limpio_def by (rule hace_frio_nunca)
  have d: "\<not> py_in (''qu'' @ [e_aguda] @ '' horas son'') limpio"
    unfolding limpio_def by (rule que_horas_son_nunca)
  have t: "(''buenos d'' @ [i_aguda] @ ''as'') \<in> set SALUDOS
       \<and> (''pron'' @ [o_aguda] @ ''stico'') \<in> set PALABRAS_CLIMA
       \<and> (''hace fr'' @ [i_aguda] @ ''o'') \<in> set PALABRAS_CLIMA
       \<and> (''qu'' @ [e_aguda] @ '' horas son'') \<in> set PALABRAS_HORA"
    by (simp add: SALUDOS_def PALABRAS_CLIMA_def PALABRAS_HORA_def)
  have s: "es_saludo (extraer_entidades (PyStr texto)) =
           (texto \<noteq> [] \<and> list_ex (\<lambda>k. py_in k limpio)
              [''hola'', ''buenas tardes'', ''buenas noches'', ''hey'', ''saludos''])"
    using a by (simp add: extraer_entidades_def entidades_vacias_def Let_def SALUDOS_def limpio_def)
  have cl: "es_clima (extraer_entidades (PyStr texto)) =
           (texto \<noteq> [] \<and> list_ex (\<lambda>k. py_in k limpio)
              [''clima'', ''tiempo'', ''temperatura'', ''hace calor''])"
    using b c
    by (simp add: extraer_entidades_def entidades_vacias_def Let_def PALABRAS_CLIMA_def limpio_def)
  have h: "es_hora (extraer_entidades (PyStr texto)) =
           (texto \<noteq> [] \<and> list_ex (\<lambda>k. py_in k limpio) [''hora'', ''dime la hora''])"
    using d
    by (simp add: extraer_entidades_def entidades_vacias_def Let_def PALABRAS_HORA_def limpio_def)
  have e: "\<not> es_saludo (extraer_entidades (PyStr (''buenos d'' @ [i_aguda] @ ''as'')))"
    by code_simp
  from a b c d t s cl h e show ?thesis by blast
qed

section \<open>Country resolution and extraction\<close>

text \<open>
  Claim C1, evaluated on the code. For the message \<open>Hola, ?que clima hace en Espana?\<close>
  (with its accents and inverted question mark) the flags are as the claim says and the
  greeting short-circuits the router, but the location is \<open>argentina\<close>: the token after
  the marker is \<open>espana?\<close>, which resolves to nothing, and the second pass resolves the
  marker \<open>en\<close> itself.
\<close>

theorem hola_espana_resuelve_argentina:
  "extraer_entidades (PyStr MENSAJE_HOLA_ESPANA) =
     \<lparr>ubicacion = Some ''argentina'', es_saludo = True, es_clima = True, es_hora = False,
      es_pais = True\<rparr>
   \<and> procesar_mensaje clima hora (PyStr MENSAJE_HOLA_ESPANA) = Texto MENSAJE_SALUDO"
proof -
  have e: "extraer_entidades (PyStr MENSAJE_HOLA_ESPANA) =
     \<lparr>ubicacion = Some ''argentina'', es_saludo = True, es_clima = True, es_hora = False,
      es_pais = True\<rparr>"
    by code_simp
  show ?thesis by (simp add: e procesar_mensaje_def)
qed

lemma variaciones_distintas: "distinct (map fst variaciones_paises)"
  by code_simp

text \<open>
  Claim C2, as amended. For every entry of the alias table whose target is a key of the
  country registry, \<open>_normalizar_pais\<close> returns that target for every text that lower-cases
  and strips to the alias: any mix of upper and lower case, any surrounding white space.
\<close>

theorem normalizar_pais_alias:
  assumes "(a, c) \<in> set variaciones_paises" and "c \<in> set nombres_paises"
    and "py_strip (py_lower s) = a"
  shows "normalizar_pais s = Some c"
proof -
  have "map_of variaciones_paises a = Some c"
    using assms(1) variaciones_distintas by (rule_tac map_of_is_SomeI) auto
  then show ?thesis using assms(2,3) by (simp add: normalizar_pais_def)
qed

theorem normalizar_pais_alias_witness:
  "(''eeuu'', ''estados unidos'') \<in> set variaciones_paises
   \<and> ''estados unidos'' \<in> set nombres_paises
   \<and> py_strip (py_lower '' EeUU '') = ''eeuu''
   \<and> normalizar_pais '' EeUU '' = Some ''estados unidos''"
proof -
  have 1: "(''eeuu'', ''estados unidos'') \<in> set variaciones_paises" by code_simp
  have 2: "''estados unidos'' \<in> set nombres_paises" by code_simp
  have 3: "py_strip (py_lower '' EeUU '') = ''eeuu''" by code_simp
  show ?thesis using 1 2 3 normalizar_pais_alias [OF 1 2 3] by blast
qed

text \<open>
  Claim C2 as stated fails: \<open>portugal\<close> is an alias of the table and resolves to nothing
  (its target is not a registry key), and while \<open>eeuu\<close> resolves to \<open>estados unidos\<close>, the
  same alias with an accent on its first letter resolves to nothing (\<open>_normalizar_pais\<close>
  strips no accent).
\<close>

theorem alias_sin_registro_counterexample:
  "(''portugal'', ''portugal'') \<in> set variaciones_paises
   \<and> normalizar_pais ''portugal'' = None
   \<and> normalizar_pais ''eeuu'' = Some ''estados unidos''
   \<and> normalizar_pais ([e_aguda] @ ''euu'') = None"
  by code_simp

lemma buscar_en_texto_primero:
  assumes "\<forall>t \<in> set pre. normalizar_pais t = None" and "verdadero (normalizar_pais w)"
  shows "buscar_en_texto (pre @ w # post) = normalizar_pais w"
  using assms by (induction pre) auto

lemma normalizar_en: "normalizar_pais ''en'' = Some ''argentina''"
  by code_simp

lemma normalizar_de: "normalizar_pais ''de'' = Some ''alemania''"
  by code_simp

text \<open>
  Claim C4. The marker \<open>de\<close> resolves to \<open>alemania\<close> and the marker \<open>en\<close> to \<open>argentina\<close>.
  Hence, for every message whose tokens hold \<open>en\<close> or \<open>de\<close> at some position, with no
  earlier token that resolves to a country and a first pass that finds nothing, the
  extracted location is \<open>argentina\<close> (for \<open>en\<close>) or \<open>alemania\<close> (for \<open>de\<close>), and \<open>es_pais\<close> is set.
\<close>

theorem marcadores_resuelven_pais:
  assumes "py_split (eliminar_tildes (py_lower texto)) = pre @ w # post"
    and "w = ''en'' \<or> w = ''de''"
    and "\<forall>t \<in> set pre. normalizar_pais t = None"
    and "buscar_tras_patron (pre @ w # post) = None"
  shows "normalizar_pais ''de'' = Some ''alemania''
       \<and> normalizar_pais ''en'' = Some ''argentina''
       \<and> ubicacion (extraer_entidades (PyStr texto)) =
           Some (if w = ''en'' then ''argentina'' else ''alemania'')
       \<and> es_pais (extraer_entidades (PyStr texto))"
proof -
  have ne: "texto \<noteq> []"
  proof
    assume "texto = []"
    then have "py_split (eliminar_tildes (py_lower texto)) = []"
      by (simp add: py_split_def eliminar_tildes_def py_lower_def)
    with assms(1) show False by simp
  qed
  have w: "normalizar_pais w = Some (if w = ''en'' then ''argentina'' else ''alemania'')"
    using assms(2) normalizar_en normalizar_de by auto
  then have v: "verdadero (normalizar_pais w)" by simp
  have b: "buscar_en_texto (pre @ w # post) = normalizar_pais w"
    using assms(3) v by (rule buscar_en_texto_primero)
  have "ubicacion (extraer_entidades (PyStr texto)) = normalizar_pais w"
    using ne assms(1,4) b by (simp add: extraer_entidades_def Let_def)
  moreover have "es_pais (extraer_entidades (PyStr texto)) = verdadero (normalizar_pais w)"
    using ne assms(1,4) b by (simp add: extraer_entidades_def Let_def)
  ultimately show ?thesis using w v normalizar_en normalizar_de by simp
qed

theorem marcadores_resuelven_pais_witness:
  "py_split (eliminar_tildes (py_lower MENSAJE_SIN_LUGAR)) =
      [''que'', ''clima'', ''hace''] @ ''en'' # [''mi'', ''ciudad'']
   \<and> normalizar_pais ''que'' = None \<and> normalizar_pais ''clima'' = None
   \<and> normalizar_pais ''hace'' = None
   \<and> buscar_tras_patron ([''que'', ''clima'', ''hace''] @ ''en'' # [''mi'', ''ciudad'']) = None
   \<and> ubicacion (extraer_entidades (PyStr MENSAJE_SIN_LUGAR)) = Some ''argentina''"
proof -
  have 1: "py_split (eliminar_tildes (py_lower MENSAJE_SIN_LUGAR)) =
      [''que'', ''clima'', ''hace''] @ ''en'' # [''mi'', ''ciudad'']" by code_simp
  have 2: "''en'' = ''en'' \<or> ''en'' = ''de''" by simp
  have q: "normalizar_pais ''que'' = None" by code_simp
  have c: "normalizar_pais ''clima'' = None" by code_simp
  have h: "normalizar_pais ''hace'' = None" by code_simp
  have 3: "\<forall>t \<in> set [''que'', ''clima'', ''hace'']. normalizar_pais t = None"
    using q c h by simp
  have 4: "buscar_tras_patron ([''que'', ''clima'', ''hace''] @ ''en'' # [''mi'', ''ciudad'']) = None"
    by code_simp
  show ?thesis using 1 q c h 4 marcadores_resuelven_pais [OF 1 2 3 4] by simp
qed

section \<open>Time zone and part of the day\<close>

lemma elegir_rusia:
  assumes "py_lower pais = ''rusia''"
  shows "elegir_zona tf lat lon codigo_pais (Some pais) = Inr (Some ''Europe/Moscow'')"
proof -
  have p: "pais \<noteq> []" using assms by (auto simp: py_lower_def)
  have m: "map_of PAISES_INFO ''rusia'' = Some \<lparr>capital = ''Mosc'' @ [u_aguda], codigo = ''RU''\<rparr>"
    by code_simp
  have z: "map_of ZONAS_HORARIAS_PAIS ''RU'' = Some [''Europe/Moscow'', ''Europe/Kaliningrad'', ''Europe/Samara'',
              ''Asia/Yekaterinburg'', ''Asia/Omsk'', ''Asia/Krasnoyarsk'', ''Asia/Irkutsk'',
              ''Asia/Yakutsk'', ''Asia/Vladivostok'', ''Asia/Magadan'', ''Asia/Kamchatka'']"
    by code_simp
  show ?thesis using p by (simp add: elegir_zona_def assms m z)
qed

text \<open>
  Claim C3, as amended. With a country hint that lower-cases to \<open>rusia\<close>, whose registry
  code is \<open>RU\<close> and whose first listed zone is \<open>Europe/Moscow\<close>, the zone of the result is
  \<open>Europe/Moscow\<close> for every latitude, longitude, zone finder and country-code argument,
  as soon as the zone database knows that zone and the clock names a weekday.
\<close>

theorem rusia_fija_moscu:
  assumes "py_lower pais = ''rusia''"
    and "reloj ''Europe/Moscow'' = Inr t"
    and "map_of dias_es (dia_ingles t) = Some dia"
  shows "codigo (the (map_of PAISES_INFO ''rusia'')) = ''RU''
       \<and> map_option hd (map_of ZONAS_HORARIAS_PAIS ''RU'') = Some ''Europe/Moscow''
       \<and> obtener_zona_horaria tf reloj lat lon codigo_pais (Some pais) =
           Inr \<lparr>timezone = ''Europe/Moscow'', time = formato_24 t, time_12 = formato_12 t,
                moment = momento_del_dia (hour t), weekday = dia\<rparr>"
proof -
  have a: "codigo (the (map_of PAISES_INFO ''rusia'')) = ''RU''" by code_simp
  have b: "map_option hd (map_of ZONAS_HORARIAS_PAIS ''RU'') = Some ''Europe/Moscow''" by code_simp
  have "obtener_zona_horaria tf reloj lat lon codigo_pais (Some pais) =
           Inr \<lparr>timezone = ''Europe/Moscow'', time = formato_24 t, time_12 = formato_12 t,
                moment = momento_del_dia (hour t), weekday = dia\<rparr>"
    using assms(2,3) by (simp add: obtener_zona_horaria_def elegir_rusia [OF assms(1)])
  with a b show ?thesis by blast
qed

theorem rusia_fija_moscu_witness:
  "py_lower ''Rusia'' = ''rusia''
   \<and> reloj_mediodia ''Europe/Moscow'' = Inr \<lparr>hour = 12, minute = 5, dia_ingles = ''Monday''\<rparr>
   \<and> map_of dias_es ''Monday'' = Some ''lunes''
   \<and> obtener_zona_horaria tf_vladivostok reloj_mediodia 43 132 None (Some ''Rusia'') =
        Inr \<lparr>timezone = ''Europe/Moscow'', time = ''12:05'', time_12 = ''12:05 p.m.'',
             moment = ''de la tarde'', weekday = ''lunes''\<rparr>"
proof -
  have 1: "py_lower ''Rusia'' = ''rusia''" by code_simp
  have 2: "reloj_mediodia ''Europe/Moscow'' = Inr \<lparr>hour = 12, minute = 5, dia_ingles = ''Monday''\<rparr>"
    by (simp add: reloj_mediodia_def)
  have 3: "map_of dias_es (dia_ingles \<lparr>hour = 12, minute = 5, dia_ingles = ''Monday''\<rparr>) = Some ''lunes''"
    by code_simp
  have 4: "formato_24 \<lparr>hour = 12, minute = 5, dia_ingles = ''Monday''\<rparr> = ''12:05''" by code_simp
  have 5: "formato_12 \<lparr>hour = 12, minute = 5, dia_ingles = ''Monday''\<rparr> = ''12:05 p.m.''" by code_simp
  have 6: "momento_del_dia (hour \<lparr>hour = 12, minute = 5, dia_ingles = ''Monday''\<rparr>) = ''de la tarde''"
    by code_simp
  have 7: "map_of dias_es ''Monday'' = Some ''lunes''" using 3 by simp
  show ?thesis
    using 1 2 7 rusia_fija_moscu [where reloj = reloj_mediodia and tf = tf_vladivostok and lat = 43
      and lon = 132 and codigo_pais = None, OF 1 2 3] 4 5 6 by simp
qed

text \<open>
  Claim C3 as stated fails for the ISO code: with the code \<open>RU\<close> as \<open>codigo_pais\<close> and no
  hint, or with \<open>RU\<close> given as the hint, the zone is the one the coordinates give.
\<close>

theorem codigo_ru_sin_pista_counterexample:
  "obtener_zona_horaria tf_vladivostok reloj_mediodia 43 132 (Some ''RU'') None =
        Inr \<lparr>timezone = ''Asia/Vladivostok'', time = ''12:05'', time_12 = ''12:05 p.m.'',
             moment = ''de la tarde'', weekday = ''lunes''\<rparr>
   \<and> obtener_zona_horaria tf_vladivostok reloj_mediodia 43 132 None (Some ''RU'') =
        Inr \<lparr>timezone = ''Asia/Vladivostok'', time = ''12:05'', time_12 = ''12:05 p.m.'',
             moment = ''de la tarde'', weekday = ''lunes''\<rparr>"
proof -
  have 4: "formato_24 \<lparr>hour = 12, minute = 5, dia_ingles = ''Monday''\<rparr> = ''12:05''" by code_simp
  have 5: "formato_12 \<lparr>hour = 12, minute = 5, dia_ingles = ''Monday''\<rparr> = ''12:05 p.m.''" by code_simp
  have 6: "momento_del_dia 12 = ''de la tarde''" by code_simp
  have 7: "map_of dias_es ''Monday'' = Some ''lunes''" by code_simp
  have 8: "map_of PAISES_INFO (py_lower ''RU'') = None" by code_simp
  show ?thesis
    by (simp add: obtener_zona_horaria_def elegir_zona_def tf_vladivostok_def reloj_mediodia_def
        4 5 6 7 8)
qed

lemma momento_manana: "(momento_del_dia h = ''de la ma'' @ [enie] @ ''ana'') = (5 \<le> h \<and> h < 12)"
  by (simp add: momento_del_dia_def)

lemma momento_tarde: "(momento_del_dia h = ''de la tarde'') = (12 \<le> h \<and> h < 20)"
  by (auto simp: momento_del_dia_def)

lemma momento_noche: "(momento_del_dia h = ''de la noche'') = (h < 5 \<or> 20 \<le> h)"
  by (auto simp: momento_del_dia_def)

lemma zona_ok_reloj:
  assumes "obtener_zona_horaria tf reloj lat lon codigo_pais pais_usuario = Inr info"
  shows "\<exists>t. reloj (timezone info) = Inr t \<and> moment info = momento_del_dia (hour t)"
  using assms
  by (auto simp: obtener_zona_horaria_def
      split: sum.splits option.splits if_splits py_error.splits)

text \<open>
  Claim C7. Whenever \<open>obtener_zona_horaria\<close> returns a result, its label is a function of
  the local hour alone: morning exactly for hours 5 to 11, afternoon exactly for hours 12
  to 19, night otherwise; hour 4 is night, 5 and 11 morning, 12 and 19 afternoon, 20 night.
\<close>

theorem momento_por_hora:
  assumes "obtener_zona_horaria tf reloj lat lon codigo_pais pais_usuario = Inr info"
  shows "(\<exists>t. reloj (timezone info) = Inr t
           \<and> (moment info = ''de la ma'' @ [enie] @ ''ana'' \<longleftrightarrow> 5 \<le> hour t \<and> hour t < 12)
           \<and> (moment info = ''de la tarde'' \<longleftrightarrow> 12 \<le> hour t \<and> hour t < 20)
           \<and> (moment info = ''de la noche'' \<longleftrightarrow> hour t < 5 \<or> 20 \<le> hour t))
       \<and> momento_del_dia 4 = ''de la noche''
       \<and> momento_del_dia 5 = ''de la ma'' @ [enie] @ ''ana''
       \<and> momento_del_dia 11 = ''de la ma'' @ [enie] @ ''ana''
       \<and> momento_del_dia 12 = ''de la tarde''
       \<and> momento_del_dia 19 = ''de la tarde''
       \<and> momento_del_dia 20 = ''de la noche''"
proof -
  obtain t where t: "reloj (timezone info) = Inr t" "moment info = momento_del_dia (hour t)"
    using zona_ok_reloj [OF assms] by blast
  have "\<exists>t. reloj (timezone info) = Inr t
           \<and> (moment info = ''de la ma'' @ [enie] @ ''ana'' \<longleftrightarrow> 5 \<le> hour t \<and> hour t < 12)
           \<and> (moment info = ''de la tarde'' \<longleftrightarrow> 12 \<le> hour t \<and> hour t < 20)
           \<and> (moment info = ''de la noche'' \<longleftrightarrow> hour t < 5 \<or> 20 \<le> hour t)"
    using t momento_manana [of "hour t"] momento_tarde [of "hour t"] momento_noche [of "hour t"]
    by auto
  moreover have "momento_del_dia 4 = ''de la noche''
       \<and> momento_del_dia 5 = ''de la ma'' @ [enie] @ ''ana''
       \<and> momento_del_dia 11 = ''de la ma'' @ [enie] @ ''ana''
       \<and> momento_del_dia 12 = ''de la tarde''
       \<and> momento_del_dia 19 = ''de la tarde''
       \<and> momento_del_dia 20 = ''de la noche''"
    by (simp add: momento_del_dia_def)
  ultimately show ?thesis by blast
qed

lemma zona_mediodia:
  "obtener_zona_horaria tf_vladivostok reloj_mediodia 43 132 None None =
     Inr \<lparr>timezone = ''Asia/Vladivostok'', time = ''12:05'', time_12 = ''12:05 p.m.'',
          moment = ''de la tarde'', weekday = ''lunes''\<rparr>"
proof -
  have 4: "formato_24 \<lparr>hour = 12, minute = 5, dia_ingles = ''Monday''\<rparr> = ''12:05''" by code_simp
  have 5: "formato_12 \<lparr>hour = 12, minute = 5, dia_ingles = ''Monday''\<rparr> = ''12:05 p.m.''"
    by code_simp
  have 6: "momento_del_dia 12 = ''de la tarde''" by code_simp
  have 7: "map_of dias_es ''Monday'' = Some ''lunes''" by code_simp
  show ?thesis
    by (simp add: obtener_zona_horaria_def elegir_zona_def tf_vladivostok_def reloj_mediodia_def
        4 5 6 7)
qed

theorem momento_por_hora_witness:
  "obtener_zona_horaria tf_vladivostok reloj_mediodia 43 132 None None =
     Inr \<lparr>timezone = ''Asia/Vladivostok'', time = ''12:05'', time_12 = ''12:05 p.m.'',
          moment = ''de la tarde'', weekday = ''lunes''\<rparr>
   \<and> momento_del_dia 4 = ''de la noche''
   \<and> momento_del_dia 5 = ''de la ma'' @ [enie] @ ''ana''
   \<and> momento_del_dia 11 = ''de la ma'' @ [enie] @ ''ana''
   \<and> momento_del_dia 12 = ''de la tarde''
   \<and> momento_del_dia 19 = ''de la tarde''
   \<and> momento_del_dia 20 = ''de la noche''"
  using zona_mediodia momento_por_hora [OF zona_mediodia] by blast

section \<open>The HTTP client\<close>

lemma paso_ok:
  "intento (red a) = Inr data \<Longrightarrow> bucle_intentos red a (Suc n) = (Inr data, [Peticion a 15])"
  by (simp add: TIMEOUT_def)

lemma paso_final:
  "intento (red 2) = Inl e \<Longrightarrow> bucle_intentos red 2 (Suc n) = (Inl WeatherAPIError, [Peticion 2 15])"
  by (simp add: TIMEOUT_def MAX_RETRIES_def)

lemma paso_falla:
  assumes "intento (red a) = Inl e" and "a < 2"
  shows "bucle_intentos red a (Suc n) =
           (fst (bucle_intentos red (Suc a) n),
            [Peticion a 15, Dormir ((a + 1) * 2)] @ snd (bucle_intentos red (Suc a) n))"
  using assms by (simp add: TIMEOUT_def MAX_RETRIES_def split: prod.splits)

lemma make_api_request_unfold:
  "make_api_request red =
     (case intento (red 0) of
        Inr data \<Rightarrow> (Inr data, [Peticion 0 15])
      | Inl e0 \<Rightarrow>
          (case intento (red 1) of
             Inr data \<Rightarrow> (Inr data, [Peticion 0 15, Dormir 2, Peticion 1 15])
           | Inl e1 \<Rightarrow>
               (case intento (red 2) of
                  Inr data \<Rightarrow> (Inr data, TRAZA_COMPLETA)
                | Inl e2 \<Rightarrow> (Inl WeatherAPIError, TRAZA_COMPLETA))))"
proof -
  have n: "make_api_request red = bucle_intentos red 0 (Suc (Suc (Suc 0)))"
    by (simp add: make_api_request_def MAX_RETRIES_def numeral_3_eq_3)
  have s1: "Suc 0 = 1" and s2: "Suc 1 = 2" by simp_all
  show ?thesis
  proof (cases "intento (red 0)")
    case (Inr d0)
    then show ?thesis by (simp only: n paso_ok [where red = red, OF Inr] sum.case)
  next
    case e0: (Inl e0)
    have f0: "bucle_intentos red 0 (Suc (Suc (Suc 0))) =
           (fst (bucle_intentos red 1 (Suc (Suc 0))),
            [Peticion 0 15, Dormir 2] @ snd (bucle_intentos red 1 (Suc (Suc 0))))"
      using paso_falla [where red = red and a = 0 and n = "Suc (Suc 0)", OF e0]
        by (simp del: bucle_intentos.simps)
    show ?thesis
    proof (cases "intento (red 1)")
      case (Inr d1)
      show ?thesis by (simp only: n f0 paso_ok [where red = red, OF Inr] e0 Inr sum.case) simp
    next
      case e1: (Inl e1)
      have f1: "bucle_intentos red 1 (Suc (Suc 0)) =
           (fst (bucle_intentos red 2 (Suc 0)),
            [Peticion 1 15, Dormir 4] @ snd (bucle_intentos red 2 (Suc 0)))"
        using paso_falla [where red = red and a = 1 and n = "Suc 0", OF e1]
        by (simp del: bucle_intentos.simps add: numeral_2_eq_2)
      show ?thesis
      proof (cases "intento (red 2)")
        case (Inr d2)
        show ?thesis
          by (simp only: n f0 f1 paso_ok [where red = red, OF Inr] e0 e1 Inr sum.case)
             (simp add: TRAZA_COMPLETA_def)
      next
        case e2: (Inl e2)
        show ?thesis
          by (simp only: n f0 f1 paso_final [where red = red, OF e2] e0 e1 e2 sum.case)
             (simp add: TRAZA_COMPLETA_def)
      qed
    qed
  qed
qed

lemma intento_falla:
  "red_i = Fallo_transporte \<or> (\<exists>estado data. red_i = Respuesta estado data \<and> estado \<noteq> 200)
   \<Longrightarrow> \<exists>e. intento red_i = Inl e"
  by (auto split: json.splits)

lemma leer_vacio: "leer_ubicacion (JArr []) = NADA"
  by simp

text \<open>
  Claim C5, as amended. The client makes at most three requests, each with the 15-second
  timeout, and sleeps 2 seconds after the first failure and 4 after the second, never
  after the third. When the first two attempts fail and the third is a transport failure
  or a reply with a status other than 200, \<open>_make_api_request\<close> raises \<open>WeatherAPIError\<close>,
  and \<open>obtener_coordenadas\<close> catches it and returns four \<open>None\<close>; it returns the same for a
  successful reply that holds an empty list.
\<close>

theorem cliente_http_reintentos:
  "snd (make_api_request red) \<in>
      {[Peticion 0 15], [Peticion 0 15, Dormir 2, Peticion 1 15],
       [Peticion 0 15, Dormir 2, Peticion 1 15, Dormir 4, Peticion 2 15]}
   \<and> ((\<exists>e. intento (red 0) = Inl e) \<and> (\<exists>e. intento (red 1) = Inl e)
        \<and> (red 2 = Fallo_transporte
             \<or> (\<exists>estado data. red 2 = Respuesta estado data \<and> estado \<noteq> 200))
       \<longrightarrow> make_api_request red =
             (Inl WeatherAPIError,
              [Peticion 0 15, Dormir 2, Peticion 1 15, Dormir 4, Peticion 2 15])
         \<and> obtener_coordenadas red =
             (NADA, [Peticion 0 15, Dormir 2, Peticion 1 15, Dormir 4, Peticion 2 15]))
   \<and> (fst (make_api_request red) = Inr (JArr []) \<longrightarrow> fst (obtener_coordenadas red) = NADA)"
proof -
  have a: "snd (make_api_request red) \<in>
      {[Peticion 0 15], [Peticion 0 15, Dormir 2, Peticion 1 15],
       [Peticion 0 15, Dormir 2, Peticion 1 15, Dormir 4, Peticion 2 15]}"
    by (simp add: make_api_request_unfold TRAZA_COMPLETA_def split: sum.splits)
  have b: "make_api_request red = (Inl WeatherAPIError,
              [Peticion 0 15, Dormir 2, Peticion 1 15, Dormir 4, Peticion 2 15])
         \<and> obtener_coordenadas red =
             (NADA, [Peticion 0 15, Dormir 2, Peticion 1 15, Dormir 4, Peticion 2 15])"
    if h: "(\<exists>e. intento (red 0) = Inl e) \<and> (\<exists>e. intento (red 1) = Inl e)
        \<and> (red 2 = Fallo_transporte
             \<or> (\<exists>estado data. red 2 = Respuesta estado data \<and> estado \<noteq> 200))"
  proof -
    obtain e0 e1 where e: "intento (red 0) = Inl e0" "intento (red 1) = Inl e1" using h by blast
    obtain e2 where e2: "intento (red 2) = Inl e2" using h intento_falla [of "red 2"] by blast
    have m: "make_api_request red = (Inl WeatherAPIError, TRAZA_COMPLETA)"
      by (simp only: make_api_request_unfold e e2 sum.case)
    then show ?thesis by (simp add: obtener_coordenadas_def TRAZA_COMPLETA_def)
  qed
  have c: "fst (obtener_coordenadas red) = NADA" if "fst (make_api_request red) = Inr (JArr [])"
    using that by (cases "make_api_request red") (simp add: obtener_coordenadas_def)
  from a b c show ?thesis by blast
qed

theorem cliente_http_reintentos_witness:
  "intento (red_caida 0) = Inl RequestException \<and> intento (red_caida 1) = Inl RequestException
   \<and> red_caida 2 = Fallo_transporte
   \<and> make_api_request red_caida =
        (Inl WeatherAPIError, [Peticion 0 15, Dormir 2, Peticion 1 15, Dormir 4, Peticion 2 15])
   \<and> obtener_coordenadas red_caida =
        (NADA, [Peticion 0 15, Dormir 2, Peticion 1 15, Dormir 4, Peticion 2 15])
   \<and> make_api_request red_vacia = (Inr (JArr []), [Peticion 0 15])
   \<and> fst (obtener_coordenadas red_vacia) = NADA"
proof -
  have 1: "intento (red_caida 0) = Inl RequestException" by (simp add: red_caida_def)
  have 2: "intento (red_caida 1) = Inl RequestException" by (simp add: red_caida_def)
  have 3: "red_caida 2 = Fallo_transporte" by (simp add: red_caida_def)
  have 4: "make_api_request red_vacia = (Inr (JArr []), [Peticion 0 15])"
  proof -
    have "intento (red_vacia 0) = Inr (JArr [])" by (simp add: red_vacia_def)
    then show ?thesis by (simp only: make_api_request_unfold sum.case)
  qed
  show ?thesis
    using 1 2 3 4 cliente_http_reintentos [of red_caida] cliente_http_reintentos [of red_vacia]
    by simp
qed

text \<open>
  Claim C5 as stated fails: with every attempt failing, the client raises, but the caller
  of \<open>obtener_coordenadas\<close> receives four \<open>None\<close> and no error.
\<close>

theorem coordenadas_sin_error_counterexample:
  "fst (make_api_request red_caida) = Inl WeatherAPIError
   \<and> fst (obtener_coordenadas red_caida) = (JNull, JNull, JNull, JNull)"
proof -
  have "intento (red_caida 0) = Inl RequestException" "intento (red_caida 1) = Inl RequestException"
    "intento (red_caida 2) = Inl RequestException"
    by (simp_all add: red_caida_def)
  then have "make_api_request red_caida = (Inl WeatherAPIError, TRAZA_COMPLETA)"
    by (simp only: make_api_request_unfold sum.case)
  then show ?thesis by (simp add: obtener_coordenadas_def NADA_def)
qed

section \<open>Coordinate mode, normaliser totality and wind speed\<close>

text \<open>
  Claim C6. A message in coordinate mode whose two fields parse to a latitude outside
  \<open>[-90, 90]\<close> or a longitude outside \<open>[-180, 180]\<close> (an infinity or not-a-number
  included) is answered with status 400 and the fixed text, and the list of calls is
  empty: neither the weather lookup nor anything behind it is reached.
\<close>

theorem coordenadas_fuera_de_rango:
  assumes "py_startswith ''@coordenadas:'' (py_strip mensaje)"
    and "py_split_sep CHR '','' (py_replace ''@coordenadas:'' [] (py_strip mensaje)) = [c0, c1]"
    and "py_float c0 = Some lat" and "py_float c1 = Some lon"
    and "\<not> dentro 90 lat \<or> \<not> dentro 180 lon"
  shows "chat py_float obtener_clima_por_coordenadas procesar accuracy mensaje =
           (400, Cuerpo_texto FORMATO_INVALIDO, [])"
  using assms by (simp add: chat_def Let_def)

theorem coordenadas_fuera_de_rango_witness:
  "py_startswith ''@coordenadas:'' (py_strip ''@coordenadas:91,0'')
   \<and> py_split_sep CHR '','' (py_replace ''@coordenadas:'' [] (py_strip ''@coordenadas:91,0''))
        = [''91'', ''0'']
   \<and> float_ejemplo ''91'' = Some (Finito 91) \<and> float_ejemplo ''0'' = Some (Finito 0)
   \<and> dentro 180 (Finito 0) \<and> dentro 90 (Finito 0)
   \<and> chat float_ejemplo clima_caido procesar_eco JNull ''@coordenadas:91,0'' =
        (400, Cuerpo_texto FORMATO_INVALIDO, [])
   \<and> py_startswith ''@coordenadas:'' (py_strip ''@coordenadas:0,-181'')
   \<and> py_split_sep CHR '','' (py_replace ''@coordenadas:'' [] (py_strip ''@coordenadas:0,-181''))
        = [''0'', ''-181'']
   \<and> float_ejemplo ''-181'' = Some (Finito (- 181))
   \<and> chat float_ejemplo clima_caido procesar_eco JNull ''@coordenadas:0,-181'' =
        (400, Cuerpo_texto FORMATO_INVALIDO, [])
   \<and> chat float_ejemplo clima_caido procesar_eco JNull ''@coordenadas:0,0'' =
        (500, Cuerpo_error_clima, [Clima_por_coordenadas 0 0])"
proof -
  have a1: "py_startswith ''@coordenadas:'' (py_strip ''@coordenadas:91,0'')" by code_simp
  have a2: "py_split_sep CHR '','' (py_replace ''@coordenadas:'' [] (py_strip ''@coordenadas:91,0''))
        = [''91'', ''0'']" by code_simp
  have a3: "float_ejemplo ''91'' = Some (Finito 91)" by (simp add: float_ejemplo_def)
  have a4: "float_ejemplo ''0'' = Some (Finito 0)" by (simp add: float_ejemplo_def)
  have a5: "\<not> dentro 90 (Finito 91) \<or> \<not> dentro 180 (Finito 0)" by simp
  have b1: "py_startswith ''@coordenadas:'' (py_strip ''@coordenadas:0,-181'')" by code_simp
  have b2: "py_split_sep CHR '','' (py_replace ''@coordenadas:'' [] (py_strip ''@coordenadas:0,-181''))
        = [''0'', ''-181'']" by code_simp
  have b4: "float_ejemplo ''-181'' = Some (Finito (- 181))" by (simp add: float_ejemplo_def)
  have b5: "\<not> dentro 90 (Finito 0) \<or> \<not> dentro 180 (Finito (- 181))" by simp
  have c1: "py_startswith ''@coordenadas:'' (py_strip ''@coordenadas:0,0'')" by code_simp
  have c2: "py_split_sep CHR '','' (py_replace ''@coordenadas:'' [] (py_strip ''@coordenadas:0,0''))
        = [''0'', ''0'']" by code_simp
  have c: "chat float_ejemplo clima_caido procesar_eco JNull ''@coordenadas:0,0'' =
        (500, Cuerpo_error_clima, [Clima_por_coordenadas 0 0])"
    using c1 by (simp add: chat_def Let_def c2 a4 clima_caido_def)
  have d: "dentro 180 (Finito 0) \<and> dentro 90 (Finito 0)" by simp
  show ?thesis
    using a1 a2 a3 a4 b1 b2 b4 c d
      coordenadas_fuera_de_rango [where py_float = float_ejemplo
        and obtener_clima_por_coordenadas = clima_caido and procesar = procesar_eco
        and accuracy = JNull, OF a1 a2 a3 a4 a5]
      coordenadas_fuera_de_rango [where py_float = float_ejemplo
        and obtener_clima_por_coordenadas = clima_caido and procesar = procesar_eco
        and accuracy = JNull, OF b1 b2 a4 b4 b5]
    by blast
qed




text \<open>
  The double nearest to 3.6 lies above it (it is \<open>0x1CCCCCCCCCCCCD / 2 ^ 51\<close>), so ten
  times it is not 36 in exact arithmetic; the product rounds to 36.
\<close>

lemma binary64_tres_coma_seis: "binary64 (36 / 10) = 8106479329266893 / 2 ^ 51"
  by code_simp





end
